theory Spec2Isabelle
  imports Complex_Main "HOL-Library.Sublist" "HOL-Library.AList"
begin

section \<open>CholestroCalc.py: the data path of the electrochemical sensor interface\<close>

text \<open>
  The application is a window class \<open>ElectrochemicalApp\<close> whose methods mutate a few
  attributes: the trace store \<open>self.current_data\<close>, the status bar, the axes of the plot,
  the data tab and the results tab. Each method is modelled as a function from the
  attributes before the call to the attributes after it. Every method body is wrapped in
  \<open>try: ... except Exception as e: self.statusBar.showMessage(...)\<close>, so an exception
  inside a method becomes a status message of the returned state.

  Readings are Python floats; they are modelled by \<open>real\<close> (no NaN, no infinity, no
  rounding). What the widgets, the instrument SDK and the file dialog hand to a method is
  an argument of the model.
\<close>

subsection \<open>Python values: exceptions, strings, dictionaries\<close>

datatype error =
    KeyError string
  | AttributeError
  | TypeError
  | IndexError
  | ValueError
  | EmptyDataError
  | OSError
  | UnboundLocalError
  | DeviceError string

text \<open>
  \<open>KeyError k\<close>: a dictionary subscripted with the absent key \<open>k\<close>.
  \<open>AttributeError\<close>: \<open>type.lower()\<close> on a key that has no such method (an \<open>int\<close>).
  \<open>TypeError\<close>: \<open>'potential' in type.lower()\<close> for a \<open>bytes\<close> key, whose \<open>lower()\<close> is
  \<open>bytes\<close> again.
  \<open>IndexError\<close>: an array indexed out of bounds.
  \<open>ValueError\<close>: columns of different lengths given to \<open>pd.DataFrame\<close> or to
  \<open>ax.plot\<close>.
  \<open>EmptyDataError\<close>: \<open>pd.read_csv\<close> on a file with no column to parse (an empty file).
  \<open>OSError\<close>: a file that cannot be written or read.
  \<open>UnboundLocalError\<close>: the local \<open>method\<close> read before any branch assigned it.
  \<open>DeviceError\<close>: whatever the instrument SDK raises.
\<close>

text \<open>
  The status bar shows one message at a time: either a plain text, or
  \<open>f"{prefix}: {str(e)}"\<close> for a caught exception \<open>e\<close>.
\<close>

datatype message = Info string | Failure string error

text \<open>
  \<open>str.lower()\<close> on the code points below 256 (a \<open>char\<close> is eight bits): the ASCII
  capitals and the Latin-1 capitals U+00C0 to U+00DE (U+00D7, the multiplication sign,
  apart) move up by 32, every other code point stays.
\<close>

definition lower_char :: "char \<Rightarrow> char" where
  "lower_char c =
     (let n = (of_char c :: nat)
      in if (65 \<le> n \<and> n \<le> 90) \<or> (192 \<le> n \<and> n \<le> 222 \<and> n \<noteq> 215)
         then char_of (n + 32) else c)"

definition lower :: "string \<Rightarrow> string" where
  "lower s = map lower_char s"

text \<open>\<open>sub in s\<close> for two strings: \<open>sub\<close> occurs in \<open>s\<close> as a contiguous run.\<close>

fun str_contains :: "string \<Rightarrow> string \<Rightarrow> bool" where
  "str_contains sub [] = (sub = [])"
| "str_contains sub (c # cs) = (prefix sub (c # cs) \<or> str_contains sub cs)"

text \<open>
  A \<open>dict\<close> with string keys, in insertion order. \<open>d[k]\<close> raises \<open>KeyError\<close> on an
  absent key.
\<close>

type_synonym 'a dict = "(string \<times> 'a) list"

definition getitem :: "'a dict \<Rightarrow> string \<Rightarrow> error + 'a" where
  "getitem d k = (case map_of d k of None \<Rightarrow> Inl (KeyError k) | Some v \<Rightarrow> Inr v)"

definition bindE :: "error + 'a \<Rightarrow> ('a \<Rightarrow> error + 'b) \<Rightarrow> error + 'b" where
  "bindE r f = (case r of Inl e \<Rightarrow> Inl e | Inr v \<Rightarrow> f v)"

subsection \<open>The attributes of the window\<close>

text \<open>
  A block of the results tab: a line appended by \<open>calibrate\<close>, or the block of
  \<open>analyze_data\<close> with its peak current, peak voltage and number of data points.
\<close>

datatype block = Line string | Analysis_Results real real nat

text \<open>
  \<open>current_data\<close> is the dictionary \<open>self.current_data\<close>; \<open>status\<close> the message of the
  status bar; \<open>plot\<close> the line on the axes (\<open>None\<close>: the axes are empty); \<open>data_text\<close> the
  rows of the data tab (\<open>None\<close>: never filled); \<open>results_text\<close> the blocks of the results
  tab; \<open>files\<close> the tables held by the files on disk, each as its named columns.
\<close>

record app =
  current_data :: "real list dict"
  status :: message
  plot :: "(real list \<times> real list) option"
  data_text :: "(real \<times> real) list option"
  results_text :: "block list"
  files :: "string \<rightharpoonup> real list dict"

text \<open>The attributes after \<open>__init__\<close>, with nothing on disk.\<close>

definition init_app :: app where
  "init_app =
     \<lparr>current_data = [(''voltage'', []), (''current'', [])],
      status = Info [],
      plot = None,
      data_text = None,
      results_text = [],
      files = Map.empty\<rparr>"

subsection \<open>\<open>update_plot\<close> and \<open>update_data_display\<close>\<close>

text \<open>
  \<open>update_plot\<close> clears the axes, then draws current against voltage. \<open>ax.plot\<close> raises
  \<open>ValueError\<close> when the two sequences differ in length; the method catches it, and the
  axes stay cleared.
\<close>

definition update_plot :: "app \<Rightarrow> app" where
  "update_plot st =
     (case getitem (current_data st) ''voltage'' of
        Inl e \<Rightarrow> st\<lparr>plot := None, status := Failure ''Error updating plot'' e\<rparr>
      | Inr voltage \<Rightarrow>
          (case getitem (current_data st) ''current'' of
             Inl e \<Rightarrow> st\<lparr>plot := None, status := Failure ''Error updating plot'' e\<rparr>
           | Inr current \<Rightarrow>
               if length voltage = length current
               then st\<lparr>plot := Some (voltage, current)\<rparr>
               else st\<lparr>plot := None, status := Failure ''Error updating plot'' ValueError\<rparr>))"

text \<open>The rows of the data tab are \<open>zip(voltage, current)\<close>: as long as the shorter.\<close>

definition update_data_display :: "app \<Rightarrow> app" where
  "update_data_display st =
     (case getitem (current_data st) ''voltage'' of
        Inl e \<Rightarrow> st\<lparr>status := Failure ''Error updating data display'' e\<rparr>
      | Inr voltage \<Rightarrow>
          (case getitem (current_data st) ''current'' of
             Inl e \<Rightarrow> st\<lparr>status := Failure ''Error updating data display'' e\<rparr>
           | Inr current \<Rightarrow> st\<lparr>data_text := Some (zip voltage current)\<rparr>))"

subsection \<open>\<open>new_data_callback\<close>: the sample sink\<close>

text \<open>
  The SDK calls \<open>new_data_callback(new_data)\<close> with a dictionary from a label to a
  reading. A key of a Python dictionary need not be a string: \<open>Bytes\<close> is a \<open>bytes\<close>
  key, \<open>NotStr\<close> a key with no \<open>lower\<close> method, such as a number.
\<close>

datatype pykey = Str string | Bytes string | NotStr

type_synonym sample = "pykey \<times> real"

text \<open>\<open>self.current_data[key].append(value)\<close>.\<close>

definition append_to :: "string \<Rightarrow> real \<Rightarrow> real list dict \<Rightarrow> error + real list dict" where
  "append_to key value d =
     (case map_of d key of
        None \<Rightarrow> Inl (KeyError key)
      | Some xs \<Rightarrow> Inr (AList.update key (xs @ [value]) d))"

text \<open>The body of the loop, for one item \<open>(type, value)\<close>: an \<open>if\<close> and its \<open>elif\<close>.\<close>

fun classify :: "sample \<Rightarrow> real list dict \<Rightarrow> error + real list dict" where
  "classify (NotStr, value) d = Inl AttributeError"
| "classify (Bytes label, value) d = Inl TypeError"
| "classify (Str label, value) d =
     (if str_contains ''potential'' (lower label) then append_to ''voltage'' value d
      else if str_contains ''current'' (lower label) then append_to ''current'' value d
      else Inr d)"

text \<open>
  The loop \<open>for type, value in new_data.items()\<close>. The lists are mutated in place, so
  when an item raises, what the items before it appended stays, and the loop is left.
\<close>

fun for_items :: "sample list \<Rightarrow> real list dict \<Rightarrow> real list dict \<times> error option" where
  "for_items [] d = (d, None)"
| "for_items (s # rest) d =
     (case classify s d of
        Inl e \<Rightarrow> (d, Some e)
      | Inr d' \<Rightarrow> for_items rest d')"

definition new_data_callback :: "app \<Rightarrow> sample list \<Rightarrow> app" where
  "new_data_callback st new_data =
     (case for_items new_data (current_data st) of
        (d, Some e) \<Rightarrow> st\<lparr>current_data := d, status := Failure ''Error in data callback'' e\<rparr>
      | (d, None) \<Rightarrow> update_data_display (update_plot (st\<lparr>current_data := d\<rparr>)))"

subsection \<open>Technique presets and the measurement method\<close>

text \<open>
  The table \<open>parameters\<close> of \<open>create_parameter_groups\<close>: for each technique, each
  parameter name with its \<open>(min, max, default, step)\<close>. The decimal literals are read as
  the numbers they write.
\<close>

definition parameters :: "(real \<times> real \<times> real \<times> real) dict dict" where
  "parameters =
     [(''DPV'',
        [(''Start Potential (V)'', (-2.0, 2.0, -0.5, 0.1)),
         (''End Potential (V)'', (-2.0, 2.0, 0.5, 0.1)),
         (''Step Potential (V)'', (0.001, 0.1, 0.005, 0.001)),
         (''Pulse Amplitude (V)'', (0.001, 0.25, 0.05, 0.001)),
         (''Pulse Width (s)'', (0.001, 1.0, 0.05, 0.001)),
         (''Scan Rate (V/s)'', (0.01, 1.0, 0.05, 0.01))]),
      (''CV'',
        [(''Start Potential (V)'', (-2.0, 2.0, -0.5, 0.1)),
         (''First Vertex Potential (V)'', (-2.0, 2.0, 0.5, 0.1)),
         (''Second Vertex Potential (V)'', (-2.0, 2.0, -0.5, 0.1)),
         (''Step Potential (V)'', (0.001, 0.1, 0.01, 0.001)),
         (''Scan Rate (V/s)'', (0.01, 10.0, 0.1, 0.01)),
         (''Number of Scans'', (1, 10, 1, 1))]),
      (''SWV'',
        [(''Start Potential (V)'', (-2.0, 2.0, -0.5, 0.1)),
         (''End Potential (V)'', (-2.0, 2.0, 0.5, 0.1)),
         (''Step Potential (V)'', (0.001, 0.1, 0.004, 0.001)),
         (''Amplitude (V)'', (0.001, 0.25, 0.02, 0.001)),
         (''Frequency (Hz)'', (1, 1000, 25, 1))])]"

text \<open>
  The preset of a technique is the subscript \<open>parameters[technique]\<close>; the widget groups
  \<open>self.param_widgets\<close> are built with the same keys, and \<open>update_parameters\<close> and
  \<open>start_measurement\<close> subscript them with the technique.
\<close>

definition get_preset :: "string \<Rightarrow> error + (real \<times> real \<times> real \<times> real) dict" where
  "get_preset technique = getitem parameters technique"

text \<open>
  The method objects of \<open>pspymethods\<close>, with the fields \<open>start_measurement\<close> assigns.
\<close>

datatype measurement_method =
    DPV (e_begin: real) (e_end: real) (e_step: real)
        (pulse_height: real) (pulse_width: real) (scan_rate: real)
  | CV (e_begin: real) (e_vertex1: real) (e_vertex2: real) (e_step: real)
       (scan_rate: real) (n_scans: int)
  | SWV (e_begin: real) (e_end: real) (e_step: real) (e_amplitude: real) (frequency: real)

text \<open>\<open>int(x)\<close> for a float \<open>x\<close>.\<close>

definition int_of_float :: "real \<Rightarrow> int" where
  "int_of_float x = (if 0 \<le> x then \<lfloor>x\<rfloor> else \<lceil>x\<rceil>)"

text \<open>
  The three branches of \<open>start_measurement\<close> that fill the method from
  \<open>params = self.param_widgets[technique].get_values()\<close>. For any other technique no
  branch runs and the local \<open>method\<close> stays unbound (\<open>None\<close> here).
\<close>

definition build_method :: "string \<Rightarrow> real dict \<Rightarrow> error + measurement_method option" where
  "build_method technique params =
     (if technique = ''DPV'' then
        bindE (getitem params ''Start Potential (V)'') (\<lambda>v1.
        bindE (getitem params ''End Potential (V)'') (\<lambda>v2.
        bindE (getitem params ''Step Potential (V)'') (\<lambda>v3.
        bindE (getitem params ''Pulse Amplitude (V)'') (\<lambda>v4.
        bindE (getitem params ''Pulse Width (s)'') (\<lambda>v5.
        bindE (getitem params ''Scan Rate (V/s)'') (\<lambda>v6.
        Inr (Some (DPV v1 v2 v3 v4 v5 v6))))))))
      else if technique = ''CV'' then
        bindE (getitem params ''Start Potential (V)'') (\<lambda>v1.
        bindE (getitem params ''First Vertex Potential (V)'') (\<lambda>v2.
        bindE (getitem params ''Second Vertex Potential (V)'') (\<lambda>v3.
        bindE (getitem params ''Step Potential (V)'') (\<lambda>v4.
        bindE (getitem params ''Scan Rate (V/s)'') (\<lambda>v5.
        bindE (getitem params ''Number of Scans'') (\<lambda>v6.
        Inr (Some (CV v1 v2 v3 v4 v5 (int_of_float v6)))))))))
      else if technique = ''SWV'' then
        bindE (getitem params ''Start Potential (V)'') (\<lambda>v1.
        bindE (getitem params ''End Potential (V)'') (\<lambda>v2.
        bindE (getitem params ''Step Potential (V)'') (\<lambda>v3.
        bindE (getitem params ''Amplitude (V)'') (\<lambda>v4.
        bindE (getitem params ''Frequency (Hz)'') (\<lambda>v5.
        Inr (Some (SWV v1 v2 v3 v4 v5)))))))
      else Inr None)"

text \<open>The keys each branch subscripts \<open>params\<close> with, in the order of the assignments.\<close>

definition required_keys :: "string \<Rightarrow> string list" where
  "required_keys technique =
     (if technique = ''DPV'' then
        [''Start Potential (V)'', ''End Potential (V)'', ''Step Potential (V)'',
         ''Pulse Amplitude (V)'', ''Pulse Width (s)'', ''Scan Rate (V/s)'']
      else if technique = ''CV'' then
        [''Start Potential (V)'', ''First Vertex Potential (V)'',
         ''Second Vertex Potential (V)'', ''Step Potential (V)'', ''Scan Rate (V/s)'',
         ''Number of Scans'']
      else if technique = ''SWV'' then
        [''Start Potential (V)'', ''End Potential (V)'', ''Step Potential (V)'',
         ''Amplitude (V)'', ''Frequency (Hz)'']
      else [])"

subsection \<open>\<open>start_measurement\<close>\<close>

text \<open>
  The arguments are what the method reads from outside the window's data:
  \<open>technique\<close> is \<open>self.technique_combo.currentText()\<close>; \<open>param_widgets\<close> gives, for
  each technique that has a widget group, the \<open>get_values()\<close> of the group;
  \<open>is_connected\<close> is \<open>self.manager.is_connected()\<close>; \<open>manager_measure\<close> is
  \<open>self.manager.measure\<close>: the batches of samples it hands to \<open>new_data_callback\<close>
  while it runs, then what it raises, or whether it returns a measurement (not \<open>None\<close>).

  The trace store is cleared after the method is built and before the connection is
  looked at.
\<close>

definition start_measurement ::
  "string \<Rightarrow> real dict dict \<Rightarrow> bool \<Rightarrow> (measurement_method \<Rightarrow> sample list list \<times> (error + bool))
     \<Rightarrow> app \<Rightarrow> app" where
  "start_measurement technique param_widgets is_connected manager_measure st =
     (case bindE (getitem param_widgets technique) (build_method technique) of
        Inl e \<Rightarrow> st\<lparr>status := Failure ''Error starting measurement'' e\<rparr>
      | Inr meth \<Rightarrow>
          (let st1 = st\<lparr>current_data := [(''voltage'', []), (''current'', [])]\<rparr>
           in if is_connected then
                (case meth of
                   None \<Rightarrow> st1\<lparr>status := Failure ''Error starting measurement'' UnboundLocalError\<rparr>
                 | Some m \<Rightarrow>
                     (let (batches, outcome) = manager_measure m;
                          st2 = foldl new_data_callback st1 batches
                      in case outcome of
                           Inl e \<Rightarrow> st2\<lparr>status := Failure ''Error starting measurement'' e\<rparr>
                         | Inr True \<Rightarrow> st2\<lparr>status := Info ''Measurement started''\<rparr>
                         | Inr False \<Rightarrow> st2\<lparr>status := Info ''Failed to start measurement''\<rparr>))
              else st1\<lparr>status := Info ''No device connected''\<rparr>))"

subsection \<open>\<open>save_data\<close> and \<open>open_data\<close>\<close>

text \<open>
  \<open>pd.DataFrame(d)\<close> for a dictionary of lists: the columns must all have one length,
  or the constructor raises \<open>ValueError\<close>. A frame is kept as its named columns.
\<close>

definition DataFrame :: "real list dict \<Rightarrow> error + real list dict" where
  "DataFrame data =
     (case data of
        [] \<Rightarrow> Inr []
      | (k, col) # rest \<Rightarrow>
          if list_all (\<lambda>(k', col'). length col' = length col) rest
          then Inr data else Inl ValueError)"

text \<open>
  A file on disk is modelled by the table it holds: the column names of its header line
  and, under each, the numbers that the decimal fields of the column denote. The
  serialiser is thereby a modelled one: a number written to a file is the number read
  back from it, so "the serialized numeric precision" is equality of the modelled
  numbers. \<open>df.to_csv(filename, index=False)\<close> stores the frame, or raises
  \<open>OSError\<close> when the path cannot be written; \<open>pd.read_csv(filename)\<close> gives the table
  of the file, raises \<open>OSError\<close> when there is no such file, and raises
  \<open>EmptyDataError\<close> when the file has no column at all (the table \<open>[]\<close>: an empty file
  or a bare newline); \<open>df.to_dict('list')\<close> is the dictionary from each column name to
  the list of its values.
\<close>

definition read_csv :: "(string \<rightharpoonup> real list dict) \<Rightarrow> string \<Rightarrow> error + real list dict" where
  "read_csv fs filename =
     (case fs filename of
        None \<Rightarrow> Inl OSError
      | Some df \<Rightarrow> if df = [] then Inl EmptyDataError else Inr df)"

definition to_dict :: "real list dict \<Rightarrow> real list dict" where
  "to_dict df = df"

text \<open>
  \<open>filename\<close> is what the file dialog returns (empty when the user cancels);
  \<open>writable\<close> says whether that path can be written.
\<close>

definition save_data :: "string \<Rightarrow> bool \<Rightarrow> app \<Rightarrow> app" where
  "save_data filename writable st =
     (if filename = [] then st
      else case DataFrame (current_data st) of
             Inl e \<Rightarrow> st\<lparr>status := Failure ''Error saving data'' e\<rparr>
           | Inr df \<Rightarrow>
               if writable
               then st\<lparr>files := (files st)(filename \<mapsto> df),
                       status := Info (''Data saved to '' @ filename)\<rparr>
               else st\<lparr>status := Failure ''Error saving data'' OSError\<rparr>)"

definition open_data :: "string \<Rightarrow> app \<Rightarrow> app" where
  "open_data filename st =
     (if filename = [] then st
      else case read_csv (files st) filename of
             Inl e \<Rightarrow> st\<lparr>status := Failure ''Error loading data'' e\<rparr>
           | Inr df \<Rightarrow>
               (update_data_display (update_plot (st\<lparr>current_data := to_dict df\<rparr>)))
                 \<lparr>status := Info (''Data loaded from '' @ filename)\<rparr>)"

subsection \<open>\<open>analyze_data\<close>\<close>

definition np_abs :: "real list \<Rightarrow> real list" where
  "np_abs xs = map abs xs"

fun np_max :: "real list \<Rightarrow> error + real" where
  "np_max [] = Inl ValueError"
| "np_max (x # xs) = Inr (fold max xs x)"

text \<open>
  \<open>np.argmax\<close>: the index of the first occurrence of the maximum. The scan keeps the
  best value so far and its index, and moves on a strictly greater value only.
\<close>

fun argmax_from :: "real list \<Rightarrow> nat \<Rightarrow> real \<Rightarrow> nat \<Rightarrow> nat" where
  "argmax_from [] i best besti = besti"
| "argmax_from (x # xs) i best besti =
     (if best < x then argmax_from xs (Suc i) x i else argmax_from xs (Suc i) best besti)"

fun np_argmax :: "real list \<Rightarrow> error + nat" where
  "np_argmax [] = Inl ValueError"
| "np_argmax (x # xs) = Inr (argmax_from xs 1 x 0)"

text \<open>\<open>a[i]\<close> for an array and an index that is not negative.\<close>

definition array_index :: "real list \<Rightarrow> nat \<Rightarrow> error + real" where
  "array_index a i = (if i < length a then Inr (a ! i) else Inl IndexError)"

text \<open>
  The \<open>try\<close> block of \<open>analyze_data\<close>: \<open>None\<close> for the early return, or the block to
  append. \<open>not voltage or not current\<close> looks \<open>current\<close> up only when \<open>voltage\<close> is not
  empty.
\<close>

definition analysis :: "real list dict \<Rightarrow> error + block option" where
  "analysis d =
     bindE (getitem d ''voltage'') (\<lambda>voltage.
       if voltage = [] then Inr None
       else bindE (getitem d ''current'') (\<lambda>current.
         if current = [] then Inr None
         else bindE (np_max (np_abs current)) (\<lambda>peak_current.
              bindE (np_argmax (np_abs current)) (\<lambda>i.
              bindE (array_index voltage i) (\<lambda>peak_voltage.
              Inr (Some (Analysis_Results peak_current peak_voltage (length current))))))))"

definition analyze_data :: "app \<Rightarrow> app" where
  "analyze_data st =
     (case analysis (current_data st) of
        Inl e \<Rightarrow> st\<lparr>status := Failure ''Analysis error'' e\<rparr>
      | Inr None \<Rightarrow> st\<lparr>status := Info ''No data to analyze''\<rparr>
      | Inr (Some b) \<Rightarrow> st\<lparr>results_text := results_text st @ [b]\<rparr>)"

subsection \<open>Concrete inputs\<close>

text \<open>
  Values of the widget groups and traces used to run the model: a DPV group, the values
  of a CV group whose scan count reads 3.7, a trace whose largest absolute current is at
  index 1, and a trace whose voltage sequence is shorter than its current sequence.
\<close>

definition dpv_widgets :: "real dict dict" where
  "dpv_widgets =
     [(''DPV'',
        [(''Start Potential (V)'', - 0.5), (''End Potential (V)'', 0.5),
         (''Step Potential (V)'', 0.01), (''Pulse Amplitude (V)'', 0.05),
         (''Pulse Width (s)'', 0.05), (''Scan Rate (V/s)'', 0.05)])]"

definition cv_values :: "real dict" where
  "cv_values =
     [(''Start Potential (V)'', - 0.5), (''First Vertex Potential (V)'', 0.5),
      (''Second Vertex Potential (V)'', - 0.5), (''Step Potential (V)'', 0.01),
      (''Scan Rate (V/s)'', 0.1), (''Number of Scans'', 3.7)]"

definition trace_peak_inside :: app where
  "trace_peak_inside =
     init_app\<lparr>current_data := [(''voltage'', [0.1, 0.2, 0.3]), (''current'', [1, - 3, 3])]\<rparr>"

definition trace_short_voltage :: app where
  "trace_short_voltage =
     init_app\<lparr>current_data := [(''voltage'', [0.1]), (''current'', [1, - 3])]\<rparr>"

section \<open>Properties\<close>

subsection \<open>Strings and dictionaries\<close>

lemma str_contains_sublist: "str_contains sub s = sublist sub s"
  by (induction s) (auto simp: sublist_Cons_right)

lemma getitem_Inr_iff: "getitem d k = Inr v \<longleftrightarrow> map_of d k = Some v"
  by (simp add: getitem_def split: option.splits)

lemma getitem_update_same: "getitem (AList.update k v d) k = Inr v"
  by (simp add: getitem_def update_conv')

lemma getitem_update_other: "k' \<noteq> k \<Longrightarrow> getitem (AList.update k v d) k' = getitem d k'"
  by (simp add: getitem_def update_conv')

lemma current_data_update_plot [simp]: "current_data (update_plot st) = current_data st"
  by (simp add: update_plot_def split: sum.splits)

lemma current_data_update_data_display [simp]:
  "current_data (update_data_display st) = current_data st"
  by (simp add: update_data_display_def split: sum.splits)

lemma append_to_present:
  "getitem d key = Inr xs \<Longrightarrow> append_to key value d = Inr (AList.update key (xs @ [value]) d)"
  by (simp add: append_to_def getitem_Inr_iff)

lemma callback_no_error:
  "for_items new_data (current_data st) = (d', None) \<Longrightarrow>
     current_data (new_data_callback st new_data) = d'"
  by (simp add: new_data_callback_def)

lemma init_voltage: "getitem (current_data init_app) ''voltage'' = Inr []"
  by (simp add: init_app_def getitem_def)

lemma init_current: "getitem (current_data init_app) ''current'' = Inr []"
  by (simp add: init_app_def getitem_def)

subsection \<open>The sample sink, every sample of a batch\<close>

text \<open>
  The loop over a dictionary whose labels are all strings never raises when the trace
  store has its two sequences: it ends with the values of the potential labels appended
  to the voltage sequence and the values of the labels that contain \<open>current\<close> and not
  \<open>potential\<close> appended to the current sequence, each in the order of arrival.
\<close>

lemma for_items_strings:
  assumes "getitem d ''voltage'' = Inr vs" and "getitem d ''current'' = Inr cs"
  shows "\<exists>d'. for_items (map (\<lambda>(l, v). (Str l, v)) items) d = (d', None) \<and>
           getitem d' ''voltage''
             = Inr (vs @ map snd (filter (\<lambda>(l, v). str_contains ''potential'' (lower l)) items)) \<and>
           getitem d' ''current''
             = Inr (cs @ map snd (filter (\<lambda>(l, v). \<not> str_contains ''potential'' (lower l) \<and>
                                             str_contains ''current'' (lower l)) items))"
  using assms
proof (induction items arbitrary: d vs cs)
  case Nil
  then show ?case by simp
next
  case (Cons it items)
  obtain l x where it: "it = (l, x)" by (cases it)
  show ?case
  proof (cases "str_contains ''potential'' (lower l)")
    case True
    let ?d1 = "AList.update ''voltage'' (vs @ [x]) d"
    have cl: "classify (Str l, x) d = Inr ?d1"
      using True by (simp add: append_to_present [OF Cons.prems(1)])
    have v1: "getitem ?d1 ''voltage'' = Inr (vs @ [x])"
      by (rule getitem_update_same)
    have c1: "getitem ?d1 ''current'' = Inr cs"
      by (simp add: getitem_update_other Cons.prems(2))
    from Cons.IH [OF v1 c1] show ?thesis
      using True cl by (simp add: it)
  next
    case False
    show ?thesis
    proof (cases "str_contains ''current'' (lower l)")
      case True
      let ?d1 = "AList.update ''current'' (cs @ [x]) d"
      have cl: "classify (Str l, x) d = Inr ?d1"
        using False True by (simp add: append_to_present [OF Cons.prems(2)])
      have v1: "getitem ?d1 ''voltage'' = Inr vs"
        by (simp add: getitem_update_other Cons.prems(1))
      have c1: "getitem ?d1 ''current'' = Inr (cs @ [x])"
        by (rule getitem_update_same)
      from Cons.IH [OF v1 c1] show ?thesis
        using False True cl by (simp add: it)
    next
      case neither: False
      have cl: "classify (Str l, x) d = Inr d"
        using False neither by simp
      from Cons.IH [OF Cons.prems] show ?thesis
        using False neither cl by (simp add: it)
    qed
  qed
qed

text \<open>
  C1 (as amended). The trace store has its two sequences, and the callback is handed a
  dictionary of samples whose labels are strings. Every sample whose lowered label
  contains \<open>potential\<close> has its value appended to the voltage sequence, and no other
  sample has; every sample whose lowered label contains \<open>current\<close> and does not contain
  \<open>potential\<close> has its value appended to the current sequence, and no other sample has.
  So a potential sample never reaches the current sequence, a current sample without
  \<open>potential\<close> never reaches the voltage sequence, and a sample with neither substring
  reaches neither.
\<close>

theorem sink_classifies_sample:
  assumes v: "getitem (current_data st) ''voltage'' = Inr vs"
      and c: "getitem (current_data st) ''current'' = Inr cs"
  shows "getitem (current_data (new_data_callback st (map (\<lambda>(l, v). (Str l, v)) items)))
           ''voltage''
           = Inr (vs @ map snd (filter (\<lambda>(l, v). str_contains ''potential'' (lower l)) items)) \<and>
         getitem (current_data (new_data_callback st (map (\<lambda>(l, v). (Str l, v)) items)))
           ''current''
           = Inr (cs @ map snd (filter (\<lambda>(l, v). \<not> str_contains ''potential'' (lower l) \<and>
                                           str_contains ''current'' (lower l)) items))"
proof -
  from for_items_strings [OF v c, of items] obtain d' where
    run: "for_items (map (\<lambda>(l, v). (Str l, v)) items) (current_data st) = (d', None)"
    and v': "getitem d' ''voltage''
               = Inr (vs @ map snd (filter (\<lambda>(l, v). str_contains ''potential'' (lower l)) items))"
    and c': "getitem d' ''current''
               = Inr (cs @ map snd (filter (\<lambda>(l, v). \<not> str_contains ''potential'' (lower l) \<and>
                                               str_contains ''current'' (lower l)) items))"
    by blast
  have "current_data (new_data_callback st (map (\<lambda>(l, v). (Str l, v)) items)) = d'"
    by (rule callback_no_error [OF run])
  with v' c' show ?thesis by simp
qed

text \<open>
  The theorem at the window as \<open>__init__\<close> leaves it and a dictionary of four samples:
  a potential label, a current label, a label with neither substring, and a second
  potential label.
\<close>

theorem sink_classifies_sample_witness:
  "getitem (current_data (new_data_callback init_app
       [(Str ''E_Potential'', - 0.5), (Str ''I_CURRENT'', 1.2), (Str ''time'', 3),
        (Str ''potential 2'', - 0.4)])) ''voltage''
     = Inr [- 0.5, - 0.4] \<and>
   getitem (current_data (new_data_callback init_app
       [(Str ''E_Potential'', - 0.5), (Str ''I_CURRENT'', 1.2), (Str ''time'', 3),
        (Str ''potential 2'', - 0.4)])) ''current''
     = Inr [1.2]"
proof -
  have l: "lower ''E_Potential'' = ''e_potential''" "lower ''I_CURRENT'' = ''i_current''"
    "lower ''time'' = ''time''" "lower ''potential 2'' = ''potential 2''"
    by code_simp+
  show ?thesis
    using sink_classifies_sample [OF init_voltage init_current,
        of "[(''E_Potential'', - 0.5), (''I_CURRENT'', 1.2), (''time'', 3),
             (''potential 2'', - 0.4)]"]
    by (simp add: l)
qed

text \<open>
  C1 as stated fails: the label \<open>Potential of current loop\<close> contains \<open>current\<close>, and its
  value goes to the voltage sequence while the current sequence stays empty, because the
  test for \<open>current\<close> is the \<open>elif\<close> of the test for \<open>potential\<close>.
\<close>

theorem sink_current_label_counterexample:
  "str_contains ''current'' (lower ''Potential of current loop'') \<and>
   current_data (new_data_callback init_app [(Str ''Potential of current loop'', 5)])
     = [(''voltage'', [5]), (''current'', [])]"
proof -
  have l: "lower ''Potential of current loop'' = ''potential of current loop''"
    by code_simp
  show ?thesis
    by (simp add: l new_data_callback_def init_app_def append_to_def
        update_plot_def update_data_display_def getitem_def)
qed

subsection \<open>A label with both substrings\<close>

text \<open>
  C3 (as amended). A sample whose lowered label contains both \<open>potential\<close> and
  \<open>current\<close>, wherever it stands in a dictionary of string-labelled samples, is
  appended to the voltage sequence only: the voltage sequence receives its value
  between the potential values before it and those after it, and the current sequence
  receives what the other samples give it and nothing from this one.
\<close>

theorem sink_label_with_both:
  assumes v: "getitem (current_data st) ''voltage'' = Inr vs"
      and c: "getitem (current_data st) ''current'' = Inr cs"
      and p: "str_contains ''potential'' (lower label)"
      and q: "str_contains ''current'' (lower label)"
  shows "getitem (current_data (new_data_callback st
             (map (\<lambda>(l, v). (Str l, v)) (pre @ (label, value) # post)))) ''voltage''
           = Inr (vs @ map snd (filter (\<lambda>(l, v). str_contains ''potential'' (lower l)) pre)
                     @ [value]
                     @ map snd (filter (\<lambda>(l, v). str_contains ''potential'' (lower l)) post)) \<and>
         getitem (current_data (new_data_callback st
             (map (\<lambda>(l, v). (Str l, v)) (pre @ (label, value) # post)))) ''current''
           = Inr (cs @ map snd (filter (\<lambda>(l, v). \<not> str_contains ''potential'' (lower l) \<and>
                                           str_contains ''current'' (lower l)) pre)
                     @ map snd (filter (\<lambda>(l, v). \<not> str_contains ''potential'' (lower l) \<and>
                                           str_contains ''current'' (lower l)) post))"
proof -
  from for_items_strings [OF v c, of "pre @ (label, value) # post"] obtain d' where
    run: "for_items (map (\<lambda>(l, v). (Str l, v)) (pre @ (label, value) # post)) (current_data st)
            = (d', None)"
    and v': "getitem d' ''voltage''
               = Inr (vs @ map snd (filter (\<lambda>(l, v). str_contains ''potential'' (lower l))
                                      (pre @ (label, value) # post)))"
    and c': "getitem d' ''current''
               = Inr (cs @ map snd (filter (\<lambda>(l, v). \<not> str_contains ''potential'' (lower l) \<and>
                                               str_contains ''current'' (lower l))
                                      (pre @ (label, value) # post)))"
    by blast
  have "current_data (new_data_callback st
          (map (\<lambda>(l, v). (Str l, v)) (pre @ (label, value) # post))) = d'"
    by (rule callback_no_error [OF run])
  with v' c' p show ?thesis by simp
qed

text \<open>
  The theorem at the label \<open>Current@Potential\<close>, between a potential sample and a
  current sample.
\<close>

theorem sink_label_with_both_witness:
  "str_contains ''potential'' (lower ''Current@Potential'') \<and>
   str_contains ''current'' (lower ''Current@Potential'') \<and>
   getitem (current_data (new_data_callback init_app
       [(Str ''E_potential'', 1), (Str ''Current@Potential'', 7), (Str ''I_current'', 3)]))
     ''voltage'' = Inr [1, 7] \<and>
   getitem (current_data (new_data_callback init_app
       [(Str ''E_potential'', 1), (Str ''Current@Potential'', 7), (Str ''I_current'', 3)]))
     ''current'' = Inr [3]"
proof -
  have l: "lower ''E_potential'' = ''e_potential''" "lower ''I_current'' = ''i_current''"
    by code_simp+
  have p: "str_contains ''potential'' (lower ''Current@Potential'')"
    by code_simp
  have q: "str_contains ''current'' (lower ''Current@Potential'')"
    by code_simp
  show ?thesis
    using p q sink_label_with_both [OF init_voltage init_current p q,
        of "[(''E_potential'', 1)]" 7 "[(''I_current'', 3)]"]
    by (simp add: l)
qed

text \<open>
  C3 as stated fails: the label \<open>WE potential/current\<close> contains both substrings, its
  value 2 is appended to the voltage sequence, and the current sequence does not
  receive it.
\<close>

theorem sink_double_append_counterexample:
  "str_contains ''potential'' (lower ''WE potential/current'') \<and>
   str_contains ''current'' (lower ''WE potential/current'') \<and>
   getitem (current_data (new_data_callback init_app [(Str ''WE potential/current'', 2)]))
     ''voltage'' = Inr [2] \<and>
   getitem (current_data (new_data_callback init_app [(Str ''WE potential/current'', 2)]))
     ''current'' \<noteq> Inr [2]"
proof -
  have l: "lower ''WE potential/current'' = ''we potential/current''"
    by code_simp
  show ?thesis
    by (simp add: l new_data_callback_def init_app_def append_to_def
        update_plot_def update_data_display_def getitem_def)
qed

subsection \<open>An exception inside the callback\<close>

lemma for_items_fail:
  "for_items pre d = (d', None) \<Longrightarrow> classify bad d' = Inl e \<Longrightarrow>
     for_items (pre @ bad # post) d = (d', Some e)"
proof (induction pre arbitrary: d)
  case Nil
  then show ?case by simp
next
  case (Cons s pre)
  then show ?case by (cases "classify s d") auto
qed

text \<open>
  C7 (as amended). When the classification or the append of a sample of the batch
  raises, the callback returns with the status message \<open>Error in data callback\<close> for that
  exception; the trace store keeps what the samples before the failing one appended; the
  samples after it in the same batch are not looked at (the result does not depend on
  them); the plot and the data tab are not refreshed.
\<close>

theorem callback_stops_at_failing_sample:
  assumes pre: "for_items pre (current_data st) = (d', None)"
      and bad: "classify bad d' = Inl e"
  shows "new_data_callback st (pre @ bad # post)
           = st\<lparr>current_data := d', status := Failure ''Error in data callback'' e\<rparr>"
  by (simp add: new_data_callback_def for_items_fail [OF pre bad])

text \<open>
  The theorem at a batch of three: a potential sample, a sample whose key is not a
  string, a current sample. The first is kept, the third is lost.
\<close>

theorem callback_stops_at_failing_sample_witness:
  "for_items [(Str ''E_potential'', 1)] (current_data init_app)
     = ([(''voltage'', [1]), (''current'', [])], None) \<and>
   classify (NotStr, 2) [(''voltage'', [1]), (''current'', [])] = Inl AttributeError \<and>
   new_data_callback init_app ([(Str ''E_potential'', 1)] @ (NotStr, 2) # [(Str ''I_current'', 3)])
     = init_app\<lparr>current_data := [(''voltage'', [1]), (''current'', [])],
                status := Failure ''Error in data callback'' AttributeError\<rparr>"
proof -
  have l: "lower ''E_potential'' = ''e_potential''"
    by code_simp
  have pre: "for_items [(Str ''E_potential'', 1)] (current_data init_app)
               = ([(''voltage'', [1]), (''current'', [])], None)"
    by (simp add: l init_app_def append_to_def)
  have bad: "classify (NotStr, 2) [(''voltage'', [1]), (''current'', [])] = Inl AttributeError"
    by simp
  show ?thesis
    using pre bad callback_stops_at_failing_sample [OF pre bad, of "[(Str ''I_current'', 3)]"]
    by simp
qed

text \<open>
  C7 as stated fails: the sample \<open>(potential, 2)\<close> alone is appended to the voltage
  sequence, and the same sample after a failing one in a batch is not.
\<close>

theorem callback_rest_of_batch_counterexample:
  "current_data (new_data_callback init_app [(Str ''potential'', 2)])
     = [(''voltage'', [2]), (''current'', [])] \<and>
   current_data (new_data_callback init_app [(NotStr, 1), (Str ''potential'', 2)])
     = [(''voltage'', []), (''current'', [])] \<and>
   status (new_data_callback init_app [(NotStr, 1), (Str ''potential'', 2)])
     = Failure ''Error in data callback'' AttributeError"
proof -
  have l: "lower ''potential'' = ''potential''"
    by code_simp
  show ?thesis
    by (simp add: l new_data_callback_def init_app_def append_to_def
        update_plot_def update_data_display_def getitem_def)
qed

subsection \<open>Starting a measurement while disconnected\<close>

lemma dpv_widgets_build:
  "bindE (getitem dpv_widgets ''DPV'') (build_method ''DPV'')
     = Inr (Some (DPV (- 0.5) 0.5 0.01 0.05 0.05 0.05))"
  by (simp add: dpv_widgets_def bindE_def getitem_def build_method_def)

lemma dpv_widgets_missing:
  "bindE (getitem dpv_widgets ''CV'') (build_method ''CV'') = Inl (KeyError ''CV'')"
  by (simp add: dpv_widgets_def bindE_def getitem_def)

text \<open>
  C2 (as amended). A start requested while the manager is not connected: when the
  method can be built (the technique has a widget group with every key its branch
  reads), the call returns with the status \<open>No device connected\<close>, nothing is raised,
  and the trace store has been reset to two empty sequences; when building the method
  raises, the call returns with the status \<open>Error starting measurement\<close> for that
  exception and the trace store is untouched.
\<close>

theorem start_measurement_disconnected:
  "(\<forall>meth. bindE (getitem param_widgets technique) (build_method technique) = Inr meth \<longrightarrow>
      start_measurement technique param_widgets False manager_measure st
        = st\<lparr>current_data := [(''voltage'', []), (''current'', [])],
             status := Info ''No device connected''\<rparr>) \<and>
   (\<forall>e. bindE (getitem param_widgets technique) (build_method technique) = Inl e \<longrightarrow>
      start_measurement technique param_widgets False manager_measure st
        = st\<lparr>status := Failure ''Error starting measurement'' e\<rparr>)"
  by (simp add: start_measurement_def)

text \<open>
  The theorem at a DPV start, and at a CV start when only the DPV group exists, both on
  a trace store that holds one point.
\<close>

theorem start_measurement_disconnected_witness:
  "start_measurement ''DPV'' dpv_widgets False (\<lambda>m. ([], Inr True))
     (init_app\<lparr>current_data := [(''voltage'', [0.1]), (''current'', [2])]\<rparr>)
     = init_app\<lparr>status := Info ''No device connected''\<rparr> \<and>
   start_measurement ''CV'' dpv_widgets False (\<lambda>m. ([], Inr True))
     (init_app\<lparr>current_data := [(''voltage'', [0.1]), (''current'', [2])]\<rparr>)
     = init_app\<lparr>current_data := [(''voltage'', [0.1]), (''current'', [2])],
                status := Failure ''Error starting measurement'' (KeyError ''CV'')\<rparr>"
  using start_measurement_disconnected [of dpv_widgets "''DPV''" "\<lambda>m. ([], Inr True)"
      "init_app\<lparr>current_data := [(''voltage'', [0.1]), (''current'', [2])]\<rparr>"]
    start_measurement_disconnected [of dpv_widgets "''CV''" "\<lambda>m. ([], Inr True)"
      "init_app\<lparr>current_data := [(''voltage'', [0.1]), (''current'', [2])]\<rparr>"]
  by (simp add: dpv_widgets_build dpv_widgets_missing init_app_def)

text \<open>
  C2 as stated fails: the disconnected DPV start reports \<open>No device connected\<close> and
  leaves a trace store that is not the one it was given.
\<close>

theorem start_measurement_clears_store_counterexample:
  "status (start_measurement ''DPV'' dpv_widgets False (\<lambda>m. ([], Inr True))
     (init_app\<lparr>current_data := [(''voltage'', [0.1]), (''current'', [2])]\<rparr>))
     = Info ''No device connected'' \<and>
   current_data (start_measurement ''DPV'' dpv_widgets False (\<lambda>m. ([], Inr True))
     (init_app\<lparr>current_data := [(''voltage'', [0.1]), (''current'', [2])]\<rparr>))
     = [(''voltage'', []), (''current'', [])] \<and>
   current_data (start_measurement ''DPV'' dpv_widgets False (\<lambda>m. ([], Inr True))
     (init_app\<lparr>current_data := [(''voltage'', [0.1]), (''current'', [2])]\<rparr>))
     \<noteq> current_data (init_app\<lparr>current_data := [(''voltage'', [0.1]), (''current'', [2])]\<rparr>)"
  by (simp add: start_measurement_def dpv_widgets_build)

subsection \<open>Saving\<close>

text \<open>
  C5 (as amended). With a file name chosen and a trace store of the two sequences:
  when the sequences have equal length, saving to a writable path stores the two named
  columns in the file and reports \<open>Data saved to\<close>, and saving to an unwritable path
  reports \<open>Error saving data\<close> with \<open>OSError\<close>; when the lengths differ, saving writes
  nothing and reports \<open>Error saving data\<close> with the \<open>ValueError\<close> of the frame
  constructor, whether the path is writable or not.
\<close>

theorem save_data_needs_equal_lengths:
  assumes f: "filename \<noteq> []"
      and d: "current_data st = [(''voltage'', vs), (''current'', cs)]"
  shows "(length vs = length cs \<longrightarrow>
            save_data filename True st
              = st\<lparr>files := (files st)(filename \<mapsto> [(''voltage'', vs), (''current'', cs)]),
                   status := Info (''Data saved to '' @ filename)\<rparr> \<and>
            save_data filename False st = st\<lparr>status := Failure ''Error saving data'' OSError\<rparr>) \<and>
         (length vs \<noteq> length cs \<longrightarrow>
            save_data filename writable st
              = st\<lparr>status := Failure ''Error saving data'' ValueError\<rparr>)"
  using f by (auto simp add: save_data_def DataFrame_def d)

text \<open>The theorem at a two-point trace and at a trace of two voltages and one current.\<close>

theorem save_data_needs_equal_lengths_witness:
  "save_data ''cv.csv'' True (init_app\<lparr>current_data := [(''voltage'', [0.1, 0.2]), (''current'', [2, 3])]\<rparr>)
     = init_app\<lparr>current_data := [(''voltage'', [0.1, 0.2]), (''current'', [2, 3])],
                files := [''cv.csv'' \<mapsto> [(''voltage'', [0.1, 0.2]), (''current'', [2, 3])]],
                status := Info ''Data saved to cv.csv''\<rparr> \<and>
   save_data ''cv.csv'' False (init_app\<lparr>current_data := [(''voltage'', [0.1, 0.2]), (''current'', [2, 3])]\<rparr>)
     = init_app\<lparr>current_data := [(''voltage'', [0.1, 0.2]), (''current'', [2, 3])],
                status := Failure ''Error saving data'' OSError\<rparr> \<and>
   save_data ''cv.csv'' True (init_app\<lparr>current_data := [(''voltage'', [0.1, 0.2]), (''current'', [2])]\<rparr>)
     = init_app\<lparr>current_data := [(''voltage'', [0.1, 0.2]), (''current'', [2])],
                status := Failure ''Error saving data'' ValueError\<rparr>"
  using save_data_needs_equal_lengths [of "''cv.csv''"
      "init_app\<lparr>current_data := [(''voltage'', [0.1, 0.2]), (''current'', [2, 3])]\<rparr>"
      "[0.1, 0.2]" "[2, 3]" True]
    save_data_needs_equal_lengths [of "''cv.csv''"
      "init_app\<lparr>current_data := [(''voltage'', [0.1, 0.2]), (''current'', [2])]\<rparr>"
      "[0.1, 0.2]" "[2]" True]
  by (simp add: init_app_def)

text \<open>
  C5 as stated fails: saving two voltages and one current to a writable path leaves no
  file and reports an error that is not an \<open>OSError\<close>.
\<close>

theorem save_data_unequal_lengths_counterexample:
  "files (save_data ''cv.csv'' True
       (init_app\<lparr>current_data := [(''voltage'', [0.1, 0.2]), (''current'', [2])]\<rparr>)) ''cv.csv''
     = None \<and>
   status (save_data ''cv.csv'' True
       (init_app\<lparr>current_data := [(''voltage'', [0.1, 0.2]), (''current'', [2])]\<rparr>))
     = Failure ''Error saving data'' ValueError"
  by (simp add: save_data_def DataFrame_def init_app_def)

subsection \<open>Loading\<close>

text \<open>
  C6 (as amended). Loading a file that has at least one column and lacks the voltage
  column or the current column does not fail: the trace store is replaced by the
  columns of the file, the status reads \<open>Data loaded from\<close> and the file name, the axes
  are left cleared and the data tab is not rewritten. Loading a file that has no column
  at all fails: the parse error is reported as \<open>Error loading data\<close> and nothing else
  changes.
\<close>

theorem open_data_without_columns:
  assumes f: "filename \<noteq> []"
      and df: "files st filename = Some df"
      and absent: "map_of df ''voltage'' = None \<or> map_of df ''current'' = None"
  shows "(df \<noteq> [] \<longrightarrow>
            current_data (open_data filename st) = df \<and>
            status (open_data filename st) = Info (''Data loaded from '' @ filename) \<and>
            plot (open_data filename st) = None \<and>
            data_text (open_data filename st) = data_text st) \<and>
         (df = [] \<longrightarrow>
            open_data filename st = st\<lparr>status := Failure ''Error loading data'' EmptyDataError\<rparr>)"
  using f absent
  by (auto simp add: open_data_def read_csv_def df to_dict_def update_plot_def
      update_data_display_def getitem_def split: option.splits)

text \<open>
  The theorem at a file with the columns \<open>time\<close> and \<open>signal\<close>, and at a file with no
  column.
\<close>

theorem open_data_without_columns_witness:
  "current_data (open_data ''log.csv''
      (init_app\<lparr>files := [''log.csv'' \<mapsto> [(''time'', [0, 1]), (''signal'', [3, 4])]]\<rparr>))
     = [(''time'', [0, 1]), (''signal'', [3, 4])] \<and>
   status (open_data ''log.csv''
      (init_app\<lparr>files := [''log.csv'' \<mapsto> [(''time'', [0, 1]), (''signal'', [3, 4])]]\<rparr>))
     = Info ''Data loaded from log.csv'' \<and>
   plot (open_data ''log.csv''
      (init_app\<lparr>files := [''log.csv'' \<mapsto> [(''time'', [0, 1]), (''signal'', [3, 4])]]\<rparr>))
     = None \<and>
   open_data ''empty.csv'' (init_app\<lparr>files := [''empty.csv'' \<mapsto> []]\<rparr>)
     = init_app\<lparr>files := [''empty.csv'' \<mapsto> []],
                status := Failure ''Error loading data'' EmptyDataError\<rparr>"
  using open_data_without_columns [of "''log.csv''"
      "init_app\<lparr>files := [''log.csv'' \<mapsto> [(''time'', [0, 1]), (''signal'', [3, 4])]]\<rparr>"
      "[(''time'', [0, 1]), (''signal'', [3, 4])]"]
    open_data_without_columns [of "''empty.csv''"
      "init_app\<lparr>files := [''empty.csv'' \<mapsto> []]\<rparr>" "[]"]
  by simp

text \<open>
  C6 as stated fails: loading a file with the single column \<open>temperature\<close> ends with
  the status \<open>Data loaded from t.csv\<close> and a trace store that holds that column.
\<close>

theorem open_data_replaces_store_counterexample:
  "open_data ''t.csv'' (init_app\<lparr>files := [''t.csv'' \<mapsto> [(''temperature'', [21])]]\<rparr>)
     = init_app\<lparr>files := [''t.csv'' \<mapsto> [(''temperature'', [21])]],
                current_data := [(''temperature'', [21])],
                status := Info ''Data loaded from t.csv''\<rparr>"
  by (simp add: open_data_def read_csv_def to_dict_def update_plot_def
      update_data_display_def getitem_def init_app_def)

subsection \<open>Saving, then loading\<close>



subsection \<open>Presets\<close>

text \<open>
  C8. The preset of \<open>CV\<close> is exactly the six named parameters with their declared
  \<open>(min, max, default, step)\<close>, and the preset of any identifier other than \<open>DPV\<close>,
  \<open>CV\<close> and \<open>SWV\<close> fails with the \<open>KeyError\<close> of the subscript (the unknown-technique
  outcome).
\<close>

theorem get_preset_CV_and_unknown:
  "get_preset ''CV''
     = Inr [(''Start Potential (V)'', (-2.0, 2.0, -0.5, 0.1)),
            (''First Vertex Potential (V)'', (-2.0, 2.0, 0.5, 0.1)),
            (''Second Vertex Potential (V)'', (-2.0, 2.0, -0.5, 0.1)),
            (''Step Potential (V)'', (0.001, 0.1, 0.01, 0.001)),
            (''Scan Rate (V/s)'', (0.01, 10.0, 0.1, 0.01)),
            (''Number of Scans'', (1, 10, 1, 1))] \<and>
   (\<forall>technique. technique \<notin> {''DPV'', ''CV'', ''SWV''} \<longrightarrow>
      get_preset technique = Inl (KeyError technique))"
  by (simp add: get_preset_def getitem_def parameters_def)

text \<open>The theorem at the identifier \<open>XYZ\<close>.\<close>

theorem get_preset_CV_and_unknown_witness:
  "get_preset ''XYZ'' = Inl (KeyError ''XYZ'')"
  using get_preset_CV_and_unknown by simp

subsection \<open>Building the method\<close>

lemma int_of_float_trunc:
  "(0 \<le> x \<longrightarrow> 0 \<le> int_of_float x \<and> of_int (int_of_float x) \<le> x \<and> x < of_int (int_of_float x) + 1) \<and>
   (x < 0 \<longrightarrow> int_of_float x \<le> 0 \<and> x \<le> of_int (int_of_float x) \<and> of_int (int_of_float x) - 1 < x)"
  unfolding int_of_float_def by (auto; linarith)

lemma bindE_Inr_iff: "bindE r f = Inr y \<longleftrightarrow> (\<exists>v. r = Inr v \<and> f v = Inr y)"
  by (cases r) (auto simp: bindE_def)

lemma build_method_CV_n_scans:
  assumes "build_method ''CV'' params = Inr (Some m)"
  shows "\<exists>x. getitem params ''Number of Scans'' = Inr x \<and> n_scans m = int_of_float x"
  using assms by (auto simp: build_method_def bindE_Inr_iff)

lemma bindE_getitem_None: "map_of d k = None \<Longrightarrow> bindE (getitem d k) f = Inl (KeyError k)"
  by (simp add: bindE_def getitem_def)

lemma bindE_getitem_Some: "map_of d k = Some v \<Longrightarrow> bindE (getitem d k) f = f v"
  by (simp add: bindE_def getitem_def)

text \<open>
  Each branch reads its keys in order, so the first absent key decides: one case split
  per key, in the order of the assignments.
\<close>

lemma build_method_missing:
  assumes t: "technique \<in> {''DPV'', ''CV'', ''SWV''}"
      and k: "\<exists>k \<in> set (required_keys technique). map_of params k = None"
  shows "\<exists>k \<in> set (required_keys technique).
           map_of params k = None \<and> build_method technique params = Inl (KeyError k)"
  using t k
  apply (elim insertE emptyE)
  subgoal
    apply (simp add: build_method_def required_keys_def)
    apply (cases "map_of params ''Start Potential (V)''"; simp add: bindE_getitem_None bindE_getitem_Some)
    apply (cases "map_of params ''End Potential (V)''"; simp add: bindE_getitem_None bindE_getitem_Some)
    apply (cases "map_of params ''Step Potential (V)''"; simp add: bindE_getitem_None bindE_getitem_Some)
    apply (cases "map_of params ''Pulse Amplitude (V)''"; simp add: bindE_getitem_None bindE_getitem_Some)
    apply (cases "map_of params ''Pulse Width (s)''"; simp add: bindE_getitem_None bindE_getitem_Some)
    done
  subgoal
    apply (simp add: build_method_def required_keys_def)
    apply (cases "map_of params ''Start Potential (V)''"; simp add: bindE_getitem_None bindE_getitem_Some)
    apply (cases "map_of params ''First Vertex Potential (V)''"; simp add: bindE_getitem_None bindE_getitem_Some)
    apply (cases "map_of params ''Second Vertex Potential (V)''"; simp add: bindE_getitem_None bindE_getitem_Some)
    apply (cases "map_of params ''Step Potential (V)''"; simp add: bindE_getitem_None bindE_getitem_Some)
    apply (cases "map_of params ''Scan Rate (V/s)''"; simp add: bindE_getitem_None bindE_getitem_Some)
    done
  subgoal
    apply (simp add: build_method_def required_keys_def)
    apply (cases "map_of params ''Start Potential (V)''"; simp add: bindE_getitem_None bindE_getitem_Some)
    apply (cases "map_of params ''End Potential (V)''"; simp add: bindE_getitem_None bindE_getitem_Some)
    apply (cases "map_of params ''Step Potential (V)''"; simp add: bindE_getitem_None bindE_getitem_Some)
    apply (cases "map_of params ''Amplitude (V)''"; simp add: bindE_getitem_None bindE_getitem_Some)
    done
  done

lemma build_method_present:
  assumes t: "technique \<in> {''DPV'', ''CV'', ''SWV''}"
      and k: "\<forall>k \<in> set (required_keys technique). map_of params k \<noteq> None"
  shows "\<exists>m. build_method technique params = Inr (Some m)"
  using t k
  by (elim insertE emptyE) (auto simp: build_method_def required_keys_def bindE_getitem_Some)

text \<open>
  C9. When the CV method is built, its scan count is the control value of
  \<open>Number of Scans\<close> truncated toward zero: for a value that is not negative, the
  greatest integer not above it; for a negative value, the least integer not below it.
  For each of the three techniques, building fails with the \<open>KeyError\<close> of an absent
  required key (the missing-parameter outcome) when some required key is absent, and
  succeeds when every required key is present.
\<close>

theorem build_method_truncates_and_requires_keys:
  "(\<forall>m. build_method ''CV'' params = Inr (Some m) \<longrightarrow>
      (\<exists>x. getitem params ''Number of Scans'' = Inr x \<and>
           (0 \<le> x \<longrightarrow> 0 \<le> n_scans m \<and> of_int (n_scans m) \<le> x \<and> x < of_int (n_scans m) + 1) \<and>
           (x < 0 \<longrightarrow> n_scans m \<le> 0 \<and> x \<le> of_int (n_scans m) \<and> of_int (n_scans m) - 1 < x))) \<and>
   (technique \<in> {''DPV'', ''CV'', ''SWV''} \<longrightarrow>
      ((\<exists>k \<in> set (required_keys technique). map_of params k = None) \<longrightarrow>
         (\<exists>k \<in> set (required_keys technique).
            map_of params k = None \<and> build_method technique params = Inl (KeyError k))) \<and>
      ((\<forall>k \<in> set (required_keys technique). map_of params k \<noteq> None) \<longrightarrow>
         (\<exists>m. build_method technique params = Inr (Some m))))"
proof (intro conjI allI impI)
  fix m
  assume "build_method ''CV'' params = Inr (Some m)"
  then obtain x where x: "getitem params ''Number of Scans'' = Inr x"
    and n: "n_scans m = int_of_float x"
    using build_method_CV_n_scans by blast
  show "\<exists>x. getitem params ''Number of Scans'' = Inr x \<and>
           (0 \<le> x \<longrightarrow> 0 \<le> n_scans m \<and> of_int (n_scans m) \<le> x \<and> x < of_int (n_scans m) + 1) \<and>
           (x < 0 \<longrightarrow> n_scans m \<le> 0 \<and> x \<le> of_int (n_scans m) \<and> of_int (n_scans m) - 1 < x)"
    using x int_of_float_trunc [of x] unfolding n by blast
next
  assume "technique \<in> {''DPV'', ''CV'', ''SWV''}"
    and "\<exists>k \<in> set (required_keys technique). map_of params k = None"
  then show "\<exists>k \<in> set (required_keys technique).
            map_of params k = None \<and> build_method technique params = Inl (KeyError k)"
    by (rule build_method_missing)
next
  assume "technique \<in> {''DPV'', ''CV'', ''SWV''}"
    and "\<forall>k \<in> set (required_keys technique). map_of params k \<noteq> None"
  then show "\<exists>m. build_method technique params = Inr (Some m)"
    by (rule build_method_present)
qed

text \<open>
  The theorem at CV values with a scan count of 3.7, truncated to 3, and at the same
  values given to the SWV branch, which lack its amplitude and frequency.
\<close>

theorem build_method_truncates_and_requires_keys_witness:
  "build_method ''CV'' cv_values = Inr (Some (CV (- 0.5) 0.5 (- 0.5) 0.01 0.1 3)) \<and>
   (\<exists>x. getitem cv_values ''Number of Scans'' = Inr x \<and> 0 \<le> x \<and>
        of_int (n_scans (CV (- 0.5) 0.5 (- 0.5) 0.01 0.1 3)) \<le> x \<and>
        x < of_int (n_scans (CV (- 0.5) 0.5 (- 0.5) 0.01 0.1 3)) + 1) \<and>
   ''SWV'' \<in> {''DPV'', ''CV'', ''SWV''} \<and>
   map_of cv_values ''Frequency (Hz)'' = None \<and>
   ''Frequency (Hz)'' \<in> set (required_keys ''SWV'') \<and>
   (\<exists>k \<in> set (required_keys ''SWV'').
      map_of cv_values k = None \<and> build_method ''SWV'' cv_values = Inl (KeyError k)) \<and>
   (\<exists>m. build_method ''CV'' cv_values = Inr (Some m))"
proof -
  have b: "build_method ''CV'' cv_values = Inr (Some (CV (- 0.5) 0.5 (- 0.5) 0.01 0.1 3))"
    by (simp add: cv_values_def build_method_def bindE_def getitem_def int_of_float_def)
  have x: "getitem cv_values ''Number of Scans'' = Inr 3.7"
    by (simp add: cv_values_def getitem_def)
  have t: "''SWV'' \<in> {''DPV'', ''CV'', ''SWV''}" "''CV'' \<in> {''DPV'', ''CV'', ''SWV''}"
    by simp_all
  have k: "map_of cv_values ''Frequency (Hz)'' = None"
    by (simp add: cv_values_def)
  have r: "''Frequency (Hz)'' \<in> set (required_keys ''SWV'')"
    by (simp add: required_keys_def)
  have p: "\<forall>k \<in> set (required_keys ''CV''). map_of cv_values k \<noteq> None"
    unfolding required_keys_def cv_values_def by code_simp
  note T1 = build_method_truncates_and_requires_keys [of cv_values "''SWV''"]
  note T2 = build_method_truncates_and_requires_keys [of cv_values "''CV''"]
  from T1 b x have trunc: "\<exists>x. getitem cv_values ''Number of Scans'' = Inr x \<and> 0 \<le> x \<and>
        of_int (n_scans (CV (- 0.5) 0.5 (- 0.5) 0.01 0.1 3)) \<le> x \<and>
        x < of_int (n_scans (CV (- 0.5) 0.5 (- 0.5) 0.01 0.1 3)) + 1"
    by fastforce
  from T1 t(1) k r have missing: "\<exists>k \<in> set (required_keys ''SWV'').
      map_of cv_values k = None \<and> build_method ''SWV'' cv_values = Inl (KeyError k)"
    by blast
  from T2 t(2) p have present: "\<exists>m. build_method ''CV'' cv_values = Inr (Some m)"
    by blast
  from b trunc t(1) k r missing present show ?thesis
    by blast
qed

subsection \<open>Analysis\<close>

lemma np_max_Max: "xs \<noteq> [] \<Longrightarrow> np_max xs = Inr (Max (set xs))"
proof (cases xs)
  case Nil
  assume "xs \<noteq> []"
  with Nil show ?thesis by simp
next
  case (Cons x rest)
  have "Max (set (x # rest)) = fold max rest x"
    by (rule Max.set_eq_fold)
  then show ?thesis
    unfolding Cons by (simp only: np_max.simps)
qed

lemma argmax_from_first_max:
  assumes "length ys = i" "besti < i" "ys ! besti = best"
      and "\<forall>j < i. ys ! j \<le> best" "\<forall>j < besti. ys ! j < best"
  shows "argmax_from xs i best besti < length (ys @ xs) \<and>
         (\<forall>j < length (ys @ xs). (ys @ xs) ! j \<le> (ys @ xs) ! argmax_from xs i best besti) \<and>
         (\<forall>j < argmax_from xs i best besti.
            (ys @ xs) ! j < (ys @ xs) ! argmax_from xs i best besti)"
  using assms
proof (induction xs arbitrary: ys i best besti)
  case Nil
  then show ?case by auto
next
  case (Cons x xs)
  show ?case
  proof (cases "best < x")
    case True
    have len: "length (ys @ [x]) = Suc i" using Cons.prems(1) by simp
    have a: "i < Suc i" by simp
    have b: "(ys @ [x]) ! i = x" using Cons.prems(1) by (simp add: nth_append)
    have c: "\<forall>j < Suc i. (ys @ [x]) ! j \<le> x"
      using Cons.prems True by (auto simp: nth_append less_Suc_eq)
    have d: "\<forall>j < i. (ys @ [x]) ! j < x"
      using Cons.prems True by (auto simp: nth_append)
    from Cons.IH [OF len a b c d] True show ?thesis by simp
  next
    case False
    have len: "length (ys @ [x]) = Suc i" using Cons.prems(1) by simp
    have a: "besti < Suc i" using Cons.prems(2) by simp
    have b: "(ys @ [x]) ! besti = best" using Cons.prems by (simp add: nth_append)
    have c: "\<forall>j < Suc i. (ys @ [x]) ! j \<le> best"
      using Cons.prems False by (auto simp: nth_append less_Suc_eq)
    have d: "\<forall>j < besti. (ys @ [x]) ! j < best"
      using Cons.prems by (auto simp: nth_append)
    from Cons.IH [OF len a b c d] False show ?thesis by simp
  qed
qed

lemma np_argmax_first_max:
  assumes "xs \<noteq> []"
  shows "\<exists>i. np_argmax xs = Inr i \<and> i < length xs \<and>
             (\<forall>j < length xs. xs ! j \<le> xs ! i) \<and> (\<forall>j < i. xs ! j < xs ! i)"
proof -
  from assms obtain x rest where xs: "xs = x # rest" by (cases xs) auto
  have "argmax_from rest 1 x 0 < length ([x] @ rest) \<and>
         (\<forall>j < length ([x] @ rest). ([x] @ rest) ! j \<le> ([x] @ rest) ! argmax_from rest 1 x 0) \<and>
         (\<forall>j < argmax_from rest 1 x 0.
            ([x] @ rest) ! j < ([x] @ rest) ! argmax_from rest 1 x 0)"
    by (rule argmax_from_first_max) auto
  then show ?thesis by (simp add: xs)
qed

lemma nth_is_Max:
  assumes "i < length xs" "\<forall>j < length xs. xs ! j \<le> (xs ! i :: real)"
  shows "xs ! i = Max (set xs)"
proof (rule sym, rule Max_eqI)
  show "finite (set xs)" by simp
  show "xs ! i \<in> set xs" using assms(1) by simp
  fix y assume "y \<in> set xs"
  then obtain j where "j < length xs" "xs ! j = y" by (auto simp: in_set_conv_nth)
  with assms(2) show "y \<le> xs ! i" by auto
qed

lemma analysis_nonempty:
  assumes v: "getitem d ''voltage'' = Inr voltage" and c: "getitem d ''current'' = Inr current"
      and ne: "voltage \<noteq> []" "current \<noteq> []"
  shows "\<exists>i < length current.
           \<bar>current ! i\<bar> = Max (abs ` set current) \<and>
           (\<forall>j < i. \<bar>current ! j\<bar> < \<bar>current ! i\<bar>) \<and>
           analysis d = (if i < length voltage
                         then Inr (Some (Analysis_Results (Max (abs ` set current)) (voltage ! i)
                                           (length current)))
                         else Inl IndexError)"
proof -
  have ne': "np_abs current \<noteq> []" using ne by (simp add: np_abs_def)
  from np_argmax_first_max [OF ne'] obtain i where
    i: "np_argmax (np_abs current) = Inr i" "i < length (np_abs current)"
    and mx: "\<forall>j < length (np_abs current). np_abs current ! j \<le> np_abs current ! i"
    and fst: "\<forall>j < i. np_abs current ! j < np_abs current ! i"
    by blast
  have il: "i < length current" using i(2) by (simp add: np_abs_def)
  have M: "np_abs current ! i = Max (set (np_abs current))"
    by (rule nth_is_Max [OF i(2) mx])
  have M': "\<bar>current ! i\<bar> = Max (abs ` set current)"
    using M il by (simp add: np_abs_def)
  have F: "\<forall>j < i. \<bar>current ! j\<bar> < \<bar>current ! i\<bar>"
    using fst il by (simp add: np_abs_def)
  have pk: "np_max (np_abs current) = Inr (Max (abs ` set current))"
    using np_max_Max [OF ne'] by (simp add: np_abs_def)
  have "analysis d = (if i < length voltage
                         then Inr (Some (Analysis_Results (Max (abs ` set current)) (voltage ! i)
                                           (length current)))
                         else Inl IndexError)"
    using ne by (simp add: analysis_def v c bindE_def pk i(1) array_index_def)
  with il M' F show ?thesis by blast
qed

text \<open>
  C10. The trace store has its two sequences. If either is empty, \<open>analyze_data\<close>
  reports \<open>No data to analyze\<close> and the results tab is unchanged. If both are non-empty,
  let \<open>i\<close> be the first index at which the absolute current is largest: when the
  voltage sequence has an element at \<open>i\<close>, exactly one block is appended, with the
  largest absolute current, the voltage at \<open>i\<close> and the number of current values; when
  the voltage sequence is too short, the lookup fails, the status reads
  \<open>Analysis error\<close> with \<open>IndexError\<close>, and nothing is appended.
\<close>

theorem analyze_data_cases:
  assumes v: "getitem (current_data st) ''voltage'' = Inr voltage"
      and c: "getitem (current_data st) ''current'' = Inr current"
  shows "(voltage = [] \<or> current = [] \<longrightarrow>
            analyze_data st = st\<lparr>status := Info ''No data to analyze''\<rparr>) \<and>
         (voltage \<noteq> [] \<and> current \<noteq> [] \<longrightarrow>
            (\<exists>i < length current.
               \<bar>current ! i\<bar> = Max (abs ` set current) \<and>
               (\<forall>j < i. \<bar>current ! j\<bar> < \<bar>current ! i\<bar>) \<and>
               (i < length voltage \<longrightarrow>
                  analyze_data st
                    = st\<lparr>results_text := results_text st @
                           [Analysis_Results (Max (abs ` set current)) (voltage ! i)
                              (length current)]\<rparr>) \<and>
               (length voltage \<le> i \<longrightarrow>
                  analyze_data st = st\<lparr>status := Failure ''Analysis error'' IndexError\<rparr>)))"
proof (intro conjI impI)
  assume "voltage = [] \<or> current = []"
  then have "analysis (current_data st) = Inr None"
    by (auto simp: analysis_def v c bindE_def)
  then show "analyze_data st = st\<lparr>status := Info ''No data to analyze''\<rparr>"
    by (simp add: analyze_data_def)
next
  assume ne: "voltage \<noteq> [] \<and> current \<noteq> []"
  from analysis_nonempty [OF v c] ne obtain i where
    il: "i < length current" and M: "\<bar>current ! i\<bar> = Max (abs ` set current)"
    and F: "\<forall>j < i. \<bar>current ! j\<bar> < \<bar>current ! i\<bar>"
    and A: "analysis (current_data st) =
              (if i < length voltage
               then Inr (Some (Analysis_Results (Max (abs ` set current)) (voltage ! i)
                                 (length current)))
               else Inl IndexError)"
    by blast
  from A have "(i < length voltage \<longrightarrow>
                  analyze_data st
                    = st\<lparr>results_text := results_text st @
                           [Analysis_Results (Max (abs ` set current)) (voltage ! i)
                              (length current)]\<rparr>) \<and>
               (length voltage \<le> i \<longrightarrow>
                  analyze_data st = st\<lparr>status := Failure ''Analysis error'' IndexError\<rparr>)"
    by (simp add: analyze_data_def)
  with il M F show "\<exists>i < length current.
               \<bar>current ! i\<bar> = Max (abs ` set current) \<and>
               (\<forall>j < i. \<bar>current ! j\<bar> < \<bar>current ! i\<bar>) \<and>
               (i < length voltage \<longrightarrow>
                  analyze_data st
                    = st\<lparr>results_text := results_text st @
                           [Analysis_Results (Max (abs ` set current)) (voltage ! i)
                              (length current)]\<rparr>) \<and>
               (length voltage \<le> i \<longrightarrow>
                  analyze_data st = st\<lparr>status := Failure ''Analysis error'' IndexError\<rparr>)"
    by blast
qed

text \<open>
  The theorem at the empty trace, at a trace whose peak is at index 1 of three points,
  and at a trace with one voltage and two currents whose peak is at index 1.
\<close>

theorem analyze_data_cases_witness:
  "analyze_data init_app = init_app\<lparr>status := Info ''No data to analyze''\<rparr> \<and>
   analyze_data trace_peak_inside
     = trace_peak_inside\<lparr>results_text := [Analysis_Results 3 0.2 3]\<rparr> \<and>
   analyze_data trace_short_voltage
     = trace_short_voltage\<lparr>status := Failure ''Analysis error'' IndexError\<rparr>"
proof (intro conjI)
  show "analyze_data init_app = init_app\<lparr>status := Info ''No data to analyze''\<rparr>"
    using analyze_data_cases [OF init_voltage init_current] by simp
next
  let ?v = "[0.1, 0.2, 0.3 :: real]" and ?c = "[1, - 3, 3 :: real]"
  have v: "getitem (current_data trace_peak_inside) ''voltage'' = Inr ?v"
    by (simp add: trace_peak_inside_def getitem_def)
  have c: "getitem (current_data trace_peak_inside) ''current'' = Inr ?c"
    by (simp add: trace_peak_inside_def getitem_def)
  have ne: "?v \<noteq> [] \<and> ?c \<noteq> []"
    by simp
  have r: "results_text trace_peak_inside = []"
    by (simp add: trace_peak_inside_def init_app_def)
  have M: "Max (abs ` set ?c) = 3"
    by simp
  from analyze_data_cases [OF v c, THEN conjunct2, THEN mp, OF ne] obtain i where
    i: "i < length ?c" and m: "\<bar>?c ! i\<bar> = Max (abs ` set ?c)"
    and f: "\<forall>j < i. \<bar>?c ! j\<bar> < \<bar>?c ! i\<bar>"
    and a: "i < length ?v \<longrightarrow> analyze_data trace_peak_inside
              = trace_peak_inside\<lparr>results_text := results_text trace_peak_inside @
                  [Analysis_Results (Max (abs ` set ?c)) (?v ! i) (length ?c)]\<rparr>"
    by blast
  from i consider "i = 0" | "i = 1" | "i = 2" by (simp add: less_Suc_eq numeral_3_eq_3) linarith
  then show "analyze_data trace_peak_inside
     = trace_peak_inside\<lparr>results_text := [Analysis_Results 3 0.2 3]\<rparr>"
  proof cases
    case 1
    with m show ?thesis unfolding M by simp
  next
    case 2
    with a show ?thesis unfolding M r by simp
  next
    case 3
    have "(1::nat) < 2" by simp
    with f 3 have "\<bar>?c ! 1\<bar> < \<bar>?c ! 2\<bar>" by blast
    then show ?thesis by simp
  qed
next
  let ?v = "[0.1 :: real]" and ?c = "[1, - 3 :: real]"
  have v: "getitem (current_data trace_short_voltage) ''voltage'' = Inr ?v"
    by (simp add: trace_short_voltage_def getitem_def)
  have c: "getitem (current_data trace_short_voltage) ''current'' = Inr ?c"
    by (simp add: trace_short_voltage_def getitem_def)
  have ne: "?v \<noteq> [] \<and> ?c \<noteq> []"
    by simp
  have M: "Max (abs ` set ?c) = 3"
    by simp
  from analyze_data_cases [OF v c, THEN conjunct2, THEN mp, OF ne] obtain i where
    i: "i < length ?c" and m: "\<bar>?c ! i\<bar> = Max (abs ` set ?c)"
    and a: "length ?v \<le> i \<longrightarrow> analyze_data trace_short_voltage
              = trace_short_voltage\<lparr>status := Failure ''Analysis error'' IndexError\<rparr>"
    by blast
  from i consider "i = 0" | "i = 1" by (simp add: less_Suc_eq) linarith
  then show "analyze_data trace_short_voltage
     = trace_short_voltage\<lparr>status := Failure ''Analysis error'' IndexError\<rparr>"
  proof cases
    case 1
    with m show ?thesis unfolding M by simp
  next
    case 2
    with a show ?thesis by simp
  qed
qed

end
